theory Spec2Isabelle
  imports Complex_Main "HOL-Library.AList" "HOL-Library.Multiset"
begin

text \<open>
  A shallow embedding of the relative-projection pipeline of \<open>la\<close>: the dataset store
  \<open>MyDatasetDict\<close> with its persistence (\<open>la/utils/utils.py\<close>) and, from
  \<open>la/scripts/analyze_totally_disjoint.py\<close>, label reconciliation
  (\<open>map_labels_to_global\<close>), the anchor check (\<open>check_same_anchor_ids\<close>) and the
  projection and merge steps of \<open>single_configuration_experiment\<close>. Exceptions are
  values of a sum type, the store and the disk are passed explicitly, loops are recursive
  functions over the list of indices they iterate.
\<close>

section \<open>Python values, errors and the dataset store\<close>

text \<open>
  The exceptions the modelled code can raise. A key of a Python dictionary is a string
  (store keys, column names) or an integer (a task-local label).
\<close>

datatype pykey = StrKey string | IntKey int

datatype error =
    KeyError pykey
  | ValueError
  | TypeError
  | AttributeError
  | AssertionError
  | RuntimeError
  | FileNotFoundError

text \<open>
  A sample record of a \<open>datasets.Dataset\<close>: the columns \<open>embedding\<close>, \<open>y\<close>, \<open>id\<close> and,
  once projected, \<open>relative_embeddings\<close> (\<open>None\<close> while the column does not exist).
  Tensor entries are real numbers: the arithmetic of the model is exact.
\<close>

record sample =
  embedding :: "real list"
  y_col :: int
  id_col :: int
  relative_embeddings :: "real list option"

type_synonym dataset = "sample list"

text \<open>
  The content of \<open>metadata.json\<close>: \<open>num_tasks\<close> and, for every task name, the dictionary
  from global label (a string, as JSON keys are) to task-local label. Python dictionaries
  keep insertion order, so they are association lists.
\<close>

record metadata =
  num_tasks :: int
  global_to_local_class_mappings :: "(string \<times> (string \<times> int) list) list"

text \<open>
  \<open>MyDatasetDict\<close> is a dictionary whose values are datasets, except for the key
  \<open>metadata\<close>, which holds the metadata dictionary.
\<close>

datatype entry = Data dataset | Meta metadata

type_synonym store = "(string \<times> entry) list"

definition getitem :: "store \<Rightarrow> string \<Rightarrow> error + entry" where
  "getitem self k = (case map_of self k of None \<Rightarrow> Inl (KeyError (StrKey k)) | Some v \<Rightarrow> Inr v)"

text \<open>\<open>data[key]\<close> used as a dataset: a method call on the metadata dictionary has no such attribute.\<close>

definition get_dataset :: "store \<Rightarrow> string \<Rightarrow> error + dataset" where
  "get_dataset self k =
     (case map_of self k of
        None \<Rightarrow> Inl (KeyError (StrKey k))
      | Some (Meta m) \<Rightarrow> Inl AttributeError
      | Some (Data ds) \<Rightarrow> Inr ds)"

section \<open>Persistence: \<open>MyDatasetDict.save_to_disk\<close> and \<open>load_from_disk\<close>\<close>

text \<open>
  The disk: the directories that exist, the JSON files (by path, holding the decoded
  value) and the dataset dictionaries written by the generic \<open>DatasetDict.save_to_disk\<close>
  (by directory path).
\<close>

record disk =
  dirs :: "string set"
  json_files :: "string \<rightharpoonup> metadata"
  dataset_dicts :: "string \<rightharpoonup> (string \<times> dataset) list"

definition dirname :: "string \<Rightarrow> string" where
  "dirname p = rev (tl (dropWhile (\<lambda>c. c \<noteq> CHR ''/'') (rev p)))"

text \<open>
  \<open>save_metadata\<close>: \<open>open(metadata_path, "w")\<close> needs the parent directory, then
  \<open>json.dump(self["metadata"], f)\<close>; a \<open>Dataset\<close> is not JSON serializable.
\<close>

definition save_metadata :: "store \<Rightarrow> string \<Rightarrow> disk \<Rightarrow> error + disk" where
  "save_metadata self metadata_path d =
     (if dirname metadata_path \<notin> dirs d then Inl FileNotFoundError
      else case getitem self ''metadata'' of
        Inl e \<Rightarrow> Inl e
      | Inr (Data ds) \<Rightarrow> Inl TypeError
      | Inr (Meta m) \<Rightarrow> Inr (d\<lparr>json_files := (json_files d)(metadata_path \<mapsto> m)\<rparr>))"

text \<open>
  The generic bulk save of the \<open>datasets\<close> library: every value must be a \<open>Dataset\<close>
  (a \<open>TypeError\<close> otherwise); the directory is created when missing.
\<close>

fun datasets_of :: "store \<Rightarrow> (string \<times> dataset) list option" where
  "datasets_of [] = Some []"
| "datasets_of ((k, Data ds) # rest) = map_option (Cons (k, ds)) (datasets_of rest)"
| "datasets_of ((k, Meta m) # rest) = None"

definition DatasetDict_save_to_disk :: "store \<Rightarrow> string \<Rightarrow> disk \<Rightarrow> error + disk" where
  "DatasetDict_save_to_disk self dataset_dict_path d =
     (case datasets_of self of
        None \<Rightarrow> Inl TypeError
      | Some dd \<Rightarrow>
          Inr (d\<lparr>dirs := insert dataset_dict_path (dirs d),
                 dataset_dicts := (dataset_dicts d)(dataset_dict_path \<mapsto> dd)\<rparr>))"

text \<open>
  \<open>save_to_disk\<close> returns the store as it is in memory afterwards, and the disk.
  An exception between \<open>del self["metadata"]\<close> and the restoring assignment leaves the
  function at once (there is no \<open>finally\<close>).
\<close>

definition save_to_disk :: "store \<Rightarrow> string \<Rightarrow> disk \<Rightarrow> error + (store \<times> disk)" where
  "save_to_disk self dataset_dict_path d =
     (case save_metadata self (dataset_dict_path @ ''/metadata.json'') d of
        Inl e \<Rightarrow> Inl e
      | Inr d1 \<Rightarrow>
          (case getitem self ''metadata'' of
             Inl e \<Rightarrow> Inl e
           | Inr tmp \<Rightarrow>
               (let self1 = AList.delete ''metadata'' self in
                case DatasetDict_save_to_disk self1 dataset_dict_path d1 of
                  Inl e \<Rightarrow> Inl e
                | Inr d2 \<Rightarrow> Inr (AList.update ''metadata'' tmp self1, d2))))"


section \<open>Store keys and Python's \<open>int()\<close>\<close>

text \<open>
  \<open>error + 'a\<close> is the result of a computation that may raise; \<open>ebind\<close> runs the
  next statement when the previous one did not raise.
\<close>

definition ebind :: "error + 'a \<Rightarrow> ('a \<Rightarrow> error + 'b) \<Rightarrow> error + 'b" where
  "ebind r f = (case r of Inl e \<Rightarrow> Inl e | Inr v \<Rightarrow> f v)"

text \<open>Decimal representation of an integer, as an f-string formats it.\<close>

fun digits :: "nat \<Rightarrow> string" where
  "digits n =
     (if n < 10 then [char_of (48 + n)]
      else digits (n div 10) @ [char_of (48 + n mod 10)])"

declare digits.simps [simp del]

definition str_int :: "int \<Rightarrow> string" where
  "str_int i = (if i < 0 then CHR ''-'' # digits (nat (- i)) else digits (nat i))"

text \<open>The key \<open>f"task_{task_ind}_{mode}"\<close>.\<close>

definition task_key :: "int \<Rightarrow> string \<Rightarrow> string" where
  "task_key task_ind mode = ''task_'' @ str_int task_ind @ ''_'' @ mode"

text \<open>
  \<open>int(k)\<close> on a string, base 10: surrounding ASCII whitespace is stripped, one sign is
  allowed, then decimal digits, single underscores allowed between digits. \<open>None\<close>
  stands for the \<open>ValueError\<close>.
\<close>

definition is_space :: "char \<Rightarrow> bool" where
  "is_space c = (let n = (of_char c :: nat) in (9 \<le> n \<and> n \<le> 13) \<or> (28 \<le> n \<and> n \<le> 32))"

definition is_digit :: "char \<Rightarrow> bool" where
  "is_digit c = (let n = (of_char c :: nat) in 48 \<le> n \<and> n \<le> 57)"

definition strip :: "string \<Rightarrow> string" where
  "strip s = rev (dropWhile is_space (rev (dropWhile is_space s)))"

fun parse_digits :: "bool \<Rightarrow> nat \<Rightarrow> string \<Rightarrow> nat option" where
  "parse_digits prev acc [] = (if prev then Some acc else None)"
| "parse_digits prev acc (c # cs) =
     (if is_digit c then parse_digits True (10 * acc + (of_char c - 48)) cs
      else if c = CHR ''_'' \<and> prev then parse_digits False acc cs
      else None)"

definition py_int :: "string \<Rightarrow> int option" where
  "py_int s =
     (case strip s of
        [] \<Rightarrow> None
      | c # cs \<Rightarrow>
          if c = CHR ''-'' then map_option (\<lambda>n. - int n) (parse_digits False 0 cs)
          else if c = CHR ''+'' then map_option int (parse_digits False 0 cs)
          else map_option int (parse_digits False 0 (c # cs)))"

section \<open>Label reconciliation: \<open>map_labels_to_global\<close>\<close>

text \<open>
  \<open>{v: int(k) for k, v in global_to_local_map.items()}\<close>: the items are visited in
  order, a later item overwrites an earlier one with the same local label.
\<close>

fun invert_map :: "(string \<times> int) list \<Rightarrow> (int \<times> int) list \<Rightarrow> error + (int \<times> int) list" where
  "invert_map [] acc = Inr acc"
| "invert_map ((k, v) # items) acc =
     (case py_int k of
        None \<Rightarrow> Inl ValueError
      | Some g \<Rightarrow> invert_map items (AList.update v g acc))"






section \<open>Tensors of ids: \<open>torch.eq\<close> and \<open>torch.all\<close>\<close>

text \<open>
  \<open>torch.eq\<close> (and \<open>==\<close>) on two one-dimensional tensors compares elementwise after
  broadcasting: a tensor of length one is expanded to the length of the other; any other
  pair of different lengths raises \<open>RuntimeError\<close>. \<open>torch.all\<close> of an empty tensor is
  true.
\<close>

definition torch_eq :: "int list \<Rightarrow> int list \<Rightarrow> error + bool list" where
  "torch_eq a b =
     (if length a = length b then Inr (map2 (=) a b)
      else if length a = 1 then Inr (map (\<lambda>x. hd a = x) b)
      else if length b = 1 then Inr (map (\<lambda>x. x = hd b) a)
      else Inl RuntimeError)"

definition torch_all :: "bool list \<Rightarrow> bool" where
  "torch_all bs = list_all (\<lambda>b. b) bs"

text \<open>\<open>assert torch.all(torch.eq(a, b))\<close>; the assertion carries no message.\<close>

definition assert_all_eq :: "int list \<Rightarrow> int list \<Rightarrow> error + unit" where
  "assert_all_eq a b =
     ebind (torch_eq a b) (\<lambda>bs. if torch_all bs then Inr () else Inl AssertionError)"

section \<open>Anchor consistency: \<open>check_same_anchor_ids\<close>\<close>





section \<open>Relative projection\<close>

text \<open>
  \<open>F.normalize(x, p=2, dim=-1)\<close> divides every row by \<open>max(norm, eps)\<close> with
  \<open>eps = 1e-12\<close>; it raises nothing.
\<close>

definition eps :: real where
  "eps = 1 / 10 ^ 12"

definition l2_norm :: "real list \<Rightarrow> real" where
  "l2_norm v = sqrt (\<Sum>x\<leftarrow>v. x\<^sup>2)"

definition normalize_row :: "real list \<Rightarrow> real list" where
  "normalize_row v = map (\<lambda>x. x / max (l2_norm v) eps) v"


definition dot :: "real list \<Rightarrow> real list \<Rightarrow> real" where
  "dot u v = (\<Sum>(a, b)\<leftarrow>zip u v. a * b)"







section \<open>Merge and alignment check\<close>

text \<open>The list \<open>[data[f"task_{i}_{mode}"] for i in range(1, num_tasks + 1)]\<close>.\<close>

fun task_entries :: "store \<Rightarrow> string \<Rightarrow> int list \<Rightarrow> error + entry list" where
  "task_entries data mode [] = Inr []"
| "task_entries data mode (i # is) =
     ebind (getitem data (task_key i mode)) (\<lambda>e.
     ebind (task_entries data mode is) (\<lambda>es. Inr (e # es)))"

fun datasets_list :: "entry list \<Rightarrow> dataset list option" where
  "datasets_list [] = Some []"
| "datasets_list (Data ds # es) = map_option (Cons ds) (datasets_list es)"
| "datasets_list (Meta m # es) = None"

text \<open>
  \<open>concatenate_datasets\<close> refuses an empty list (\<open>ValueError\<close>) and anything that is not
  a dataset; otherwise the rows follow each other in the order of the list.
\<close>

definition concatenate_datasets :: "entry list \<Rightarrow> error + dataset" where
  "concatenate_datasets dsets =
     (if dsets = [] then Inl ValueError
      else case datasets_list dsets of
        None \<Rightarrow> Inl AttributeError
      | Some dss \<Rightarrow> Inr (concat dss))"

text \<open>
  \<open>Dataset.sort("id")\<close>: ascending by id; rows of equal id are kept in their order (only
  the id sequence of a sorted split is used below).
\<close>

definition sort_by_id :: "dataset \<Rightarrow> dataset" where
  "sort_by_id ds = sort_key id_col ds"

record merged =
  merged_dataset_train :: dataset
  merged_dataset_test :: dataset
  original_dataset_train :: dataset
  original_dataset_test :: dataset

definition merge_stage :: "store \<Rightarrow> int \<Rightarrow> error + merged" where
  "merge_stage data n =
     ebind (task_entries data ''train'' [1..n]) (\<lambda>trains.
     ebind (concatenate_datasets trains) (\<lambda>merged_train.
     ebind (task_entries data ''test'' [1..n]) (\<lambda>tests.
     ebind (concatenate_datasets tests) (\<lambda>merged_test.
     ebind (get_dataset data (task_key 0 ''train'')) (\<lambda>original_train.
     ebind (get_dataset data (task_key 0 ''test'')) (\<lambda>original_test.
     ebind (assert_all_eq (map id_col (sort_by_id merged_test))
              (map id_col (sort_by_id original_test))) (\<lambda>_.
       Inr \<lparr>merged_dataset_train = sort_by_id merged_train,
            merged_dataset_test = sort_by_id merged_test,
            original_dataset_train = sort_by_id original_train,
            original_dataset_test = sort_by_id original_test\<rparr>)))))))"

section \<open>Notation for the statements\<close>






section \<open>Example stores\<close>

text \<open>A metadata record with two tasks, and a store and a disk for the persistence round trip.\<close>

definition example_metadata :: metadata where
  "example_metadata =
     \<lparr>num_tasks = 2,
      global_to_local_class_mappings =
        [(''task_1'', [(''3'', 0), (''7'', 1)]), (''task_2'', [(''5'', 0)])]\<rparr>"

definition example_saved_store :: store where
  "example_saved_store =
     [(''metadata'', Meta example_metadata),
      (''task_0_test'',
         Data [\<lparr>embedding = [1, 0], y_col = 3, id_col = 1, relative_embeddings = None\<rparr>])]"

definition example_disk :: disk where
  "example_disk = \<lparr>dirs = {''out''}, json_files = Map.empty, dataset_dicts = Map.empty\<rparr>"

text \<open>
  Stores for the merge stage. In \<open>example_merge_store\<close> the reference train split has
  the extra id 100; in \<open>example_dup_store\<close> one test sample sits in the test splits of both
  tasks.
\<close>

definition smp :: "int \<Rightarrow> sample" where
  "smp i = \<lparr>embedding = [1, 0], y_col = 0, id_col = i, relative_embeddings = None\<rparr>"

definition example_merge_store :: store where
  "example_merge_store =
     [(''task_0_train'', Data [smp 100, smp 2, smp 1]), (''task_0_test'', Data [smp 3, smp 4]),
      (''task_1_train'', Data [smp 2]), (''task_1_test'', Data [smp 4]),
      (''task_2_train'', Data [smp 1]), (''task_2_test'', Data [smp 3])]"

definition example_dup_store :: store where
  "example_dup_store =
     [(''task_0_train'', Data [smp 1]), (''task_0_test'', Data [smp 7]),
      (''task_1_train'', Data [smp 1]), (''task_1_test'', Data [smp 7]),
      (''task_2_train'', Data []), (''task_2_test'', Data [smp 7])]"









section \<open>Properties of persistence\<close>

lemma dirname_metadata [simp]: "dirname (p @ ''/metadata.json'') = p"
  by (simp add: dirname_def)



lemma save_to_disk_Inr:
  assumes "save_to_disk self p d = Inr (self', d')"
  obtains m dd where
    "p \<in> dirs d"
    "map_of self ''metadata'' = Some (Meta m)"
    "datasets_of (AList.delete ''metadata'' self) = Some dd"
    "self' = AList.update ''metadata'' (Meta m) (AList.delete ''metadata'' self)"
    "d' = d\<lparr>dirs := insert p (dirs d),
            json_files := (json_files d)(p @ ''/metadata.json'' \<mapsto> m),
            dataset_dicts := (dataset_dicts d)(p \<mapsto> dd)\<rparr>"
  using assms
  by (auto simp: save_to_disk_def save_metadata_def getitem_def DatasetDict_save_to_disk_def
      Let_def split: if_splits option.splits sum.splits entry.splits)

lemma save_to_disk_succeeds:
  assumes "p \<in> dirs d"
    and "map_of self ''metadata'' = Some (Meta m)"
    and "datasets_of (AList.delete ''metadata'' self) = Some dd"
  shows "save_to_disk self p d =
    Inr (AList.update ''metadata'' (Meta m) (AList.delete ''metadata'' self),
         d\<lparr>dirs := insert p (dirs d),
           json_files := (json_files d)(p @ ''/metadata.json'' \<mapsto> m),
           dataset_dicts := (dataset_dicts d)(p \<mapsto> dd)\<rparr>)"
  using assms
  by (simp add: save_to_disk_def save_metadata_def getitem_def DatasetDict_save_to_disk_def)

lemma restore_metadata:
  "map_of self ''metadata'' = Some v \<Longrightarrow>
   map_of (AList.update ''metadata'' v (AList.delete ''metadata'' self)) = map_of self"
  by (auto simp: update_conv' delete_conv')


lemma example_save:
  "save_to_disk example_saved_store ''out'' example_disk =
     Inr (AList.update ''metadata'' (Meta example_metadata)
            (AList.delete ''metadata'' example_saved_store),
          example_disk\<lparr>dirs := insert ''out'' (dirs example_disk),
            json_files := (json_files example_disk)(''out'' @ ''/metadata.json'' \<mapsto> example_metadata),
            dataset_dicts := (dataset_dicts example_disk)(''out'' \<mapsto>
              [(''task_0_test'',
                [\<lparr>embedding = [1, 0], y_col = 3, id_col = 1, relative_embeddings = None\<rparr>])])\<rparr>)"
  by (rule save_to_disk_succeeds) (simp_all add: example_saved_store_def example_disk_def)



text \<open>
  C10. When \<open>save_to_disk\<close> returns, the store in memory is equal, as a dictionary, to the
  store before the call: every key, \<open>metadata\<close> included, has its original value. (The
  key \<open>metadata\<close> is deleted and assigned again, so it is the last key in iteration
  order afterwards.)
\<close>

theorem save_to_disk_restores_store:
  assumes "save_to_disk self p d = Inr (self', d')"
  shows "map_of self' = map_of self
       \<and> map_of self' ''metadata'' = map_of self ''metadata''
       \<and> map_of self ''metadata'' \<noteq> None"
proof -
  from assms obtain m where
    meta: "map_of self ''metadata'' = Some (Meta m)" and
    self': "self' = AList.update ''metadata'' (Meta m) (AList.delete ''metadata'' self)"
    by (rule save_to_disk_Inr)
  from meta have "map_of self' = map_of self"
    unfolding self' by (rule restore_metadata)
  with meta show ?thesis by simp
qed

theorem save_to_disk_restores_store_witness:
  "map_of (AList.update ''metadata'' (Meta example_metadata)
            (AList.delete ''metadata'' example_saved_store)) = map_of example_saved_store
   \<and> map_of (AList.update ''metadata'' (Meta example_metadata)
            (AList.delete ''metadata'' example_saved_store)) ''metadata''
       = map_of example_saved_store ''metadata''
   \<and> map_of example_saved_store ''metadata'' \<noteq> None"
  by (rule save_to_disk_restores_store [OF example_save])

section \<open>Properties of the anchor check and of the merge stage\<close>


lemma ebind_Inr [simp]: "ebind (Inr v) f = f v"
  by (simp add: ebind_def)

lemma ebind_Inl [simp]: "ebind (Inl e) f = Inl e"
  by (simp add: ebind_def)






lemma task_entries_length:
  "task_entries data mode is = Inr es \<Longrightarrow> length es = length is"
  by (induction "is" arbitrary: es) (auto simp: ebind_def split: sum.splits)

lemma datasets_list_Data [simp]: "datasets_list (map Data dss) = Some dss"
  by (induction dss) auto

lemma concatenate_datasets_Data:
  "dss \<noteq> [] \<Longrightarrow> concatenate_datasets (map Data dss) = Inr (concat dss)"
  by (simp add: concatenate_datasets_def)

text \<open>
  C9. When the train and test splits of the tasks \<open>1..n\<close> and of task 0 exist, the
  outcome of the merge stage is the outcome of the assertion on the test ids alone: the
  train ids are only concatenated and sorted by id, and nothing compares them with the
  train ids of task 0.
\<close>

theorem merge_train_unchecked:
  assumes trains: "task_entries data ''train'' [1..n] = Inr (map Data trains)"
    and tests: "task_entries data ''test'' [1..n] = Inr (map Data tests)"
    and n: "1 \<le> n"
    and otrain: "get_dataset data (task_key 0 ''train'') = Inr original_train"
    and otest: "get_dataset data (task_key 0 ''test'') = Inr original_test"
  shows "merge_stage data n =
           ebind (assert_all_eq (map id_col (sort_by_id (concat tests)))
                    (map id_col (sort_by_id original_test)))
             (\<lambda>_. Inr \<lparr>merged_dataset_train = sort_by_id (concat trains),
                        merged_dataset_test = sort_by_id (concat tests),
                        original_dataset_train = sort_by_id original_train,
                        original_dataset_test = sort_by_id original_test\<rparr>)
       \<and> sorted (map id_col (sort_by_id (concat trains)))
       \<and> mset (sort_by_id (concat trains)) = mset (concat trains)"
proof -
  have "length (map Data trains) = length [1..n]"
    using trains by (rule task_entries_length)
  with n have tr: "trains \<noteq> []" by auto
  have "length (map Data tests) = length [1..n]"
    using tests by (rule task_entries_length)
  with n have te: "tests \<noteq> []" by auto
  show ?thesis
    by (simp add: merge_stage_def trains tests otrain otest sort_by_id_def
        concatenate_datasets_Data [OF tr] concatenate_datasets_Data [OF te])
qed

lemma str_int_0: "str_int 0 = ''0''"
  by code_simp
lemma str_int_1: "str_int 1 = ''1''"
  by code_simp
lemma str_int_2: "str_int 2 = ''2''"
  by code_simp
lemma upto_1_2: "[1..2] = [1, 2::int]"
  by (simp add: upto.simps)

theorem merge_train_unchecked_witness:
  "merge_stage example_merge_store 2 =
     Inr \<lparr>merged_dataset_train = [smp 1, smp 2],
          merged_dataset_test = [smp 3, smp 4],
          original_dataset_train = [smp 1, smp 2, smp 100],
          original_dataset_test = [smp 3, smp 4]\<rparr>
   \<and> map id_col [smp 1, smp 2] \<noteq> map id_col [smp 1, smp 2, smp 100]"
proof -
  have 1: "task_entries example_merge_store ''train'' [1..2] = Inr (map Data [[smp 2], [smp 1]])"
    by (simp add: example_merge_store_def upto_1_2 task_key_def str_int_1 str_int_2 getitem_def)
  have 2: "task_entries example_merge_store ''test'' [1..2] = Inr (map Data [[smp 4], [smp 3]])"
    by (simp add: example_merge_store_def upto_1_2 task_key_def str_int_1 str_int_2 getitem_def)
  have 3: "get_dataset example_merge_store (task_key 0 ''train'') = Inr [smp 100, smp 2, smp 1]"
    by (simp add: example_merge_store_def task_key_def str_int_0 get_dataset_def)
  have 4: "get_dataset example_merge_store (task_key 0 ''test'') = Inr [smp 3, smp 4]"
    by (simp add: example_merge_store_def task_key_def str_int_0 get_dataset_def)
  have 5: "(1::int) \<le> 2" by simp
  show ?thesis
    using merge_train_unchecked [OF 1 2 5 3 4]
    by (simp add: sort_by_id_def smp_def assert_all_eq_def torch_eq_def torch_all_def)
qed

text \<open>
  C2. The code at a failing input: the reference test split holds the single id 7, and the
  test splits of tasks 1 and 2 both hold a sample with id 7. The merged id sequence is
  \<open>[7, 7]\<close>, the reference sequence is \<open>[7]\<close>, \<open>torch.eq\<close> broadcasts the latter, the
  assertion passes and the stage returns its four collections.
\<close>

theorem merge_accepts_duplicated_test_sample:
  "merge_stage example_dup_store 2 =
     Inr \<lparr>merged_dataset_train = [smp 1],
          merged_dataset_test = [smp 7, smp 7],
          original_dataset_train = [smp 1],
          original_dataset_test = [smp 7]\<rparr>
   \<and> map id_col [smp 7, smp 7] = [7, 7] \<and> map id_col [smp 7] = [7]"
  by (simp add: merge_stage_def example_dup_store_def upto_1_2 task_key_def
      str_int_0 str_int_1 str_int_2 getitem_def get_dataset_def concatenate_datasets_def
      sort_by_id_def smp_def assert_all_eq_def torch_eq_def torch_all_def)




section \<open>Store keys are injective\<close>









section \<open>Label reconciliation\<close>














lemma py_int_examples: "py_int ''3'' = Some 3" "py_int ''7'' = Some 7" "py_int ''5'' = Some 5"
  by (simp_all add: py_int_def strip_def is_space_def is_digit_def)

lemma example_invert_map:
  "invert_map [(''3'', 0), (''7'', 1)] [] = Inr [(0, 3), (1, 7)]"
  "invert_map [(''5'', 0)] [] = Inr [(0, 5)]"
  by (simp_all add: py_int_examples)







section \<open>Properties of the relative projection\<close>


lemma length_normalize_row [simp]: "length (normalize_row v) = length v"
  by (simp add: normalize_row_def)














text \<open>In exact arithmetic a cosine is bounded by one in absolute value, for every input.\<close>

lemma abs_mult_le_half_squares: "\<bar>a * b\<bar> \<le> (a\<^sup>2 + b\<^sup>2) / (2::real)"
proof -
  have "0 \<le> (\<bar>a\<bar> - \<bar>b\<bar>)\<^sup>2" by simp
  then have "2 * (\<bar>a\<bar> * \<bar>b\<bar>) \<le> a\<^sup>2 + b\<^sup>2"
    by (simp add: power2_diff)
  then show ?thesis
    by (simp add: abs_mult)
qed

lemma dot_abs_le: "\<bar>dot u v\<bar> \<le> ((\<Sum>x\<leftarrow>u. x\<^sup>2) + (\<Sum>x\<leftarrow>v. x\<^sup>2)) / 2"
proof (induction u arbitrary: v)
  case Nil
  have "0 \<le> (\<Sum>x\<leftarrow>v. x\<^sup>2)" by (rule sum_list_nonneg) auto
  then show ?case by (simp add: dot_def)
next
  case (Cons a u)
  show ?case
  proof (cases v)
    case Nil
    have "0 \<le> (\<Sum>x\<leftarrow>u. x\<^sup>2)" by (rule sum_list_nonneg) auto
    with Nil show ?thesis by (simp add: dot_def)
  next
    case (Cons b w)
    have "\<bar>dot (a # u) (b # w)\<bar> = \<bar>a * b + dot u w\<bar>"
      by (simp add: dot_def)
    also have "\<dots> \<le> \<bar>a * b\<bar> + \<bar>dot u w\<bar>"
      by (rule abs_triangle_ineq)
    also have "\<dots> \<le> (a\<^sup>2 + b\<^sup>2) / 2 + ((\<Sum>x\<leftarrow>u. x\<^sup>2) + (\<Sum>x\<leftarrow>w. x\<^sup>2)) / 2"
      by (intro add_mono abs_mult_le_half_squares Cons.IH)
    finally show ?thesis
      using Cons by (simp add: field_simps)
  qed
qed

lemma eps_pos: "0 < eps"
  by (simp add: eps_def)

lemma sum_squares_normalize_row: "(\<Sum>x\<leftarrow>normalize_row v. x\<^sup>2) \<le> 1"
proof -
  define S where "S = (\<Sum>x\<leftarrow>v. x\<^sup>2)"
  define c where "c = max (sqrt S) eps"
  have S: "0 \<le> S"
    unfolding S_def by (rule sum_list_nonneg) auto
  have c: "0 < c" "sqrt S \<le> c"
    using eps_pos by (simp_all add: c_def less_max_iff_disj)
  have "S = (sqrt S)\<^sup>2"
    using S by simp
  also have "\<dots> \<le> c\<^sup>2"
    using c S by (intro power_mono) simp_all
  finally have le: "S \<le> c\<^sup>2" .
  have "(\<Sum>x\<leftarrow>normalize_row v. x\<^sup>2) = (\<Sum>x\<leftarrow>v. x\<^sup>2 * (1 / c\<^sup>2))"
    by (simp add: normalize_row_def l2_norm_def c_def S_def comp_def power_divide)
  also have "\<dots> = S * (1 / c\<^sup>2)"
    unfolding S_def by (rule sum_list_mult_const)
  also have "\<dots> \<le> 1"
    using le c by (simp add: field_simps)
  finally show ?thesis .
qed

lemma cosine_bound: "\<bar>dot (normalize_row u) (normalize_row v)\<bar> \<le> 1"
proof -
  have "\<bar>dot (normalize_row u) (normalize_row v)\<bar>
      \<le> ((\<Sum>x\<leftarrow>normalize_row u. x\<^sup>2) + (\<Sum>x\<leftarrow>normalize_row v. x\<^sup>2)) / 2"
    by (rule dot_abs_le)
  also have "\<dots> \<le> (1 + 1) / 2"
    by (intro divide_right_mono add_mono sum_squares_normalize_row) simp
  finally show ?thesis by simp
qed









end
